theory Spec2Isabelle
  imports Main
begin

section \<open>The HTTP gateway of the creative builder (src/api/api.py)\<close>

text \<open>
  The module is a thin FastAPI facade: six route handlers that delegate to a pipeline
  runner (\<open>run_turn\<close>), to two repositories over a MongoDB connection and to the file
  system, and map what comes back to a return value or to an \<open>HTTPException\<close>.
  A handler is embedded as a function from its arguments and the state it reads to its
  outcome (and the state it leaves). The modules the handlers import are not part of
  the file; their functions are the fields of the record \<open>env\<close> below, so that
  every theorem about a handler holds for every behaviour of its collaborators.
\<close>

subsection \<open>Values and exceptions\<close>

text \<open>
  \<open>Any\<close>: the JSON-like values that travel through the gateway unread. A \<open>dict\<close> is
  an association list in insertion order; floats do not occur in anything the handlers
  inspect and are left out.
\<close>

datatype pyval =
    PNone
  | PBool bool
  | PInt int
  | PStr string
  | PList "pyval list"
  | PDict "(string \<times> pyval) list"

type_synonym pydict = "(string \<times> pyval) list"

text \<open>
  An exception raised by a collaborator, as far as the handlers can tell exceptions
  apart: whether it is an \<open>HTTPException\<close> (with its \<open>status_code\<close> and \<open>detail\<close>) or
  any other instance of \<open>Exception\<close>, and the text \<open>str(e)\<close>, which for an
  \<open>HTTPException\<close> depends on the installed framework and is therefore carried along.
  Signals that derive from \<open>BaseException\<close> only (\<open>KeyboardInterrupt\<close>, \<open>SystemExit\<close>)
  are not errors of a collaborator and are outside the model.
\<close>

datatype exn =
    RaisedHTTPException nat string string
  | RaisedException string

fun str :: "exn \<Rightarrow> string" where
  "str (RaisedHTTPException code det s) = s"
| "str (RaisedException s) = s"

text \<open>
  What a handler itself raises is always \<open>HTTPException(status_code=..., detail=...)\<close>;
  FastAPI turns it into the response with that status and that detail. A handler's
  outcome is \<open>Inl\<close> of such an exception or \<open>Inr\<close> of its return value.
\<close>

datatype http_exception = HTTPException (status_code: nat) (detail: string)

text \<open>\<open>x or d\<close> for an optional string, list or dict: \<open>None\<close> and the empty value are falsy.\<close>

definition py_or :: "'a list option \<Rightarrow> 'a list \<Rightarrow> 'a list" where
  "py_or x d = (case x of None \<Rightarrow> d | Some v \<Rightarrow> if v = [] then d else v)"

text \<open>\<open>not x\<close> for an optional document.\<close>

definition py_not :: "'a list option \<Rightarrow> bool" where
  "py_not x = (case x of None \<Rightarrow> True | Some v \<Rightarrow> v = [])"

text \<open>\<open>d[k]\<close> on a dict: a missing key raises \<open>KeyError(k)\<close>, whose text is the quoted key.\<close>

definition getitem :: "(string \<times> 'c) list \<Rightarrow> string \<Rightarrow> exn + 'c" where
  "getitem d k =
     (case map_of d k of
        None \<Rightarrow> Inl (RaisedException ([CHR 0x27] @ k @ [CHR 0x27]))
      | Some v \<Rightarrow> Inr v)"

subsection \<open>Request and response models\<close>

text \<open>
  A field of the JSON body of \<open>POST /api/v1/turns\<close>: left out, sent as \<open>null\<close>, or sent
  with a value. Bodies that fail validation (HTTP 422) never reach the handler and are
  excluded by the types.
\<close>

datatype 'a field = Omitted | Null | Given 'a

record turn_body =
  body_user_text :: string
  body_session_id :: "string field"
  body_attachments :: "pydict list field"
  body_ui_context :: "pydict field"
  body_title_if_new :: "string field"
  body_session_config :: "pydict field"

record TurnRequest =
  user_text :: string
  session_id :: "string option"
  attachments :: "pydict list option"
  ui_context :: "pydict option"
  title_if_new :: "string option"
  session_config :: "pydict option"

text \<open>A field of the model: the declared default when it is left out, \<open>None\<close> for \<open>null\<close>.\<close>

definition field_value :: "'a option \<Rightarrow> 'a field \<Rightarrow> 'a option" where
  "field_value dflt f = (case f of Omitted \<Rightarrow> dflt | Null \<Rightarrow> None | Given v \<Rightarrow> Some v)"

text \<open>
  The model class \<open>TurnRequest\<close> with its \<open>Field\<close> defaults: \<open>None\<close> for \<open>session_id\<close>,
  \<open>default_factory=list\<close> and \<open>default_factory=dict\<close> for the payloads,
  \<open>"New Session"\<close> for \<open>title_if_new\<close>.
\<close>

definition TurnRequest_init :: "turn_body \<Rightarrow> TurnRequest" where
  "TurnRequest_init b =
     \<lparr> user_text = body_user_text b,
       session_id = field_value None (body_session_id b),
       attachments = field_value (Some []) (body_attachments b),
       ui_context = field_value (Some []) (body_ui_context b),
       title_if_new = field_value (Some ''New Session'') (body_title_if_new b),
       session_config = field_value (Some []) (body_session_config b) \<rparr>"

record TurnResponse =
  resp_session_id :: string
  resp_turn_id :: string
  resp_turn_index :: int
  resp_compliance_result :: string
  resp_summary :: "string option"
  resp_artifacts :: "pydict list"

record HealthResponse =
  status :: string
  version :: string
  database :: string

record FileResponse =
  path :: string
  media_type :: string

text \<open>The keyword arguments of the call to \<open>run_turn\<close>.\<close>

record run_turn_args =
  arg_session_id :: "string option"
  arg_user_text :: string
  arg_attachments :: "pydict list"
  arg_ui_context :: pydict
  arg_title_if_new :: string
  arg_session_config_if_new :: pydict

subsection \<open>Collaborators and process state\<close>

record settings =
  mongo_uri :: string
  mongo_db :: string

text \<open>
  What \<open>os.stat\<close> tells about a path: the type of the file found there, or an \<open>OSError\<close>,
  of which \<open>FileNotFoundError\<close> is told apart; either error carries its text.
\<close>

datatype file_type = RegularFile | Directory | SpecialFile

datatype os_error = FileNotFoundError string | OtherOSError string

text \<open>
  The imported functions, over a world \<open>'w\<close> (the database and the file system) and
  collection handles \<open>'c\<close>. Each may raise; only \<open>run_turn\<close> changes the world.
  \<open>SessionRepo_get_session c\<close> stands for \<open>SessionRepo(c).get_session\<close>, likewise for
  \<open>TurnRepo\<close>; \<open>TurnRepo_get_turns_by_session\<close> includes the \<open>list(...)\<close> that consumes
  the cursor; \<open>TurnResponse_init\<close> is the validation \<open>TurnResponse(**result)\<close>;
  \<open>read_file\<close> opens a path and reads its bytes.
\<close>

record ('w, 'c) env =
  load_settings :: "'w \<Rightarrow> exn + settings"
  connect_mongo :: "string \<Rightarrow> string \<Rightarrow> 'w \<Rightarrow> exn + (string \<times> 'c) list"
  find_one :: "'c \<Rightarrow> pydict \<Rightarrow> 'w \<Rightarrow> exn + pydict option"
  SessionRepo_get_session :: "'c \<Rightarrow> string \<Rightarrow> 'w \<Rightarrow> exn + pydict option"
  TurnRepo_get_turn :: "'c \<Rightarrow> string \<Rightarrow> 'w \<Rightarrow> exn + pydict option"
  TurnRepo_get_turns_by_session :: "'c \<Rightarrow> string \<Rightarrow> int \<Rightarrow> int \<Rightarrow> 'w \<Rightarrow> exn + pydict list"
  run_turn :: "run_turn_args \<Rightarrow> 'w \<Rightarrow> (exn + pydict) \<times> 'w"
  TurnResponse_init :: "pydict \<Rightarrow> exn + TurnResponse"
  os_stat :: "string \<Rightarrow> 'w \<Rightarrow> os_error + file_type"
  read_file :: "string \<Rightarrow> 'w \<Rightarrow> exn + string"

text \<open>
  \<open>os.path.exists\<close>: \<open>os.stat\<close> succeeds. It is true of a directory as of a regular
  file, and false whenever \<open>os.stat\<close> raises.
\<close>

definition os_path_exists :: "('w, 'c) env \<Rightarrow> string \<Rightarrow> 'w \<Rightarrow> bool" where
  "os_path_exists env p w = (case os_stat env p w of Inl e \<Rightarrow> False | Inr t \<Rightarrow> True)"

text \<open>The module globals \<open>_settings\<close> and \<open>_handles\<close>, both \<open>None\<close> at import.\<close>

record 'c globals =
  global_settings :: "settings option"
  global_handles :: "(string \<times> 'c) list option"

definition initial_globals :: "'c globals" where
  "initial_globals = \<lparr> global_settings = None, global_handles = None \<rparr>"

text \<open>
  \<open>get_db_handles\<close>: the connection is made on first use and kept. When
  \<open>load_settings\<close> raises nothing is assigned; when \<open>connect_mongo\<close> raises
  \<open>_settings\<close> has been assigned and \<open>_handles\<close> has not.
\<close>

definition get_db_handles ::
  "('w, 'c) env \<Rightarrow> 'w \<Rightarrow> 'c globals \<Rightarrow> (exn + (string \<times> 'c) list) \<times> 'c globals" where
  "get_db_handles env w g =
     (case global_handles g of
        Some h \<Rightarrow> (Inr h, g)
      | None \<Rightarrow>
          (case load_settings env w of
             Inl e \<Rightarrow> (Inl e, g)
           | Inr s \<Rightarrow>
               (case connect_mongo env (mongo_uri s) (mongo_db s) w of
                  Inl e \<Rightarrow> (Inl e, g\<lparr>global_settings := Some s\<rparr>)
                | Inr h \<Rightarrow>
                    (Inr h, g\<lparr>global_settings := Some s, global_handles := Some h\<rparr>))))"

subsection \<open>Handlers\<close>

text \<open>
  \<open>health_check\<close>: the \<open>try\<close> block is the three steps up to \<open>db_status = "connected"\<close>;
  the handler \<open>except Exception as e\<close> sets \<open>db_status\<close> to \<open>"error: "\<close> followed by
  \<open>str(e)\<close>. The response is built after the \<open>try\<close> statement.
\<close>

definition health_probe :: "('w, 'c) env \<Rightarrow> 'w \<Rightarrow> 'c globals \<Rightarrow> (exn + unit) \<times> 'c globals" where
  "health_probe env w g =
     (case get_db_handles env w g of
        (Inl e, g') \<Rightarrow> (Inl e, g')
      | (Inr handles, g') \<Rightarrow>
          (case getitem handles ''sessions'' of
             Inl e \<Rightarrow> (Inl e, g')
           | Inr c \<Rightarrow>
               (case find_one env c [(''_id'', PStr ''health_check'')] w of
                  Inl e \<Rightarrow> (Inl e, g')
                | Inr _ \<Rightarrow> (Inr (), g'))))"

definition health_check ::
  "('w, 'c) env \<Rightarrow> 'w \<Rightarrow> 'c globals \<Rightarrow> (http_exception + HealthResponse) \<times> 'c globals" where
  "health_check env w g =
     (case health_probe env w g of
        (r, g') \<Rightarrow>
          (let db_status = (case r of Inr _ \<Rightarrow> ''connected'' | Inl e \<Rightarrow> ''error: '' @ str e)
           in (Inr \<lparr> status = ''healthy'', version = ''1.0.0'', database = db_status \<rparr>, g')))"

text \<open>
  \<open>create_turn\<close>: the call to \<open>run_turn\<close> and the validation of its result are both
  inside the \<open>try\<close>; any exception becomes status 500 with the detail
  \<open>"Turn generation failed: "\<close> followed by \<open>str(e)\<close>.
\<close>

definition run_turn_args_of :: "TurnRequest \<Rightarrow> run_turn_args" where
  "run_turn_args_of request =
     \<lparr> arg_session_id = session_id request,
       arg_user_text = user_text request,
       arg_attachments = py_or (attachments request) [],
       arg_ui_context = py_or (ui_context request) [],
       arg_title_if_new = py_or (title_if_new request) ''New Session'',
       arg_session_config_if_new = py_or (session_config request) [] \<rparr>"

definition generation_failed :: "exn \<Rightarrow> http_exception" where
  "generation_failed e = HTTPException 500 (''Turn generation failed: '' @ str e)"

definition create_turn ::
  "('w, 'c) env \<Rightarrow> TurnRequest \<Rightarrow> 'w \<Rightarrow> (http_exception + TurnResponse) \<times> 'w" where
  "create_turn env request w =
     (case run_turn env (run_turn_args_of request) w of
        (Inl e, w') \<Rightarrow> (Inl (generation_failed e), w')
      | (Inr result, w') \<Rightarrow>
          (case TurnResponse_init env result of
             Inl e \<Rightarrow> (Inl (generation_failed e), w')
           | Inr response \<Rightarrow> (Inr response, w')))"

text \<open>
  The two clauses \<open>except HTTPException: raise\<close> and
  \<open>except Exception as e: raise HTTPException(status_code=500, detail=str(e))\<close>
  of \<open>get_session\<close> and \<open>get_turn\<close>.
\<close>

fun reraise_or_500 :: "exn \<Rightarrow> http_exception" where
  "reraise_or_500 (RaisedHTTPException code det s) = HTTPException code det"
| "reraise_or_500 (RaisedException s) = HTTPException 500 s"

definition get_session ::
  "('w, 'c) env \<Rightarrow> 'w \<Rightarrow> 'c globals \<Rightarrow> string \<Rightarrow> (http_exception + pydict) \<times> 'c globals" where
  "get_session env w g sid =
     (case get_db_handles env w g of
        (Inl e, g') \<Rightarrow> (Inl (reraise_or_500 e), g')
      | (Inr handles, g') \<Rightarrow>
          (case getitem handles ''sessions'' of
             Inl e \<Rightarrow> (Inl (reraise_or_500 e), g')
           | Inr c \<Rightarrow>
               (case SessionRepo_get_session env c sid w of
                  Inl e \<Rightarrow> (Inl (reraise_or_500 e), g')
                | Inr session \<Rightarrow>
                    (if py_not session
                     then (Inl (HTTPException 404 ''Session not found''), g')
                     else (Inr (the session), g')))))"

definition get_turn ::
  "('w, 'c) env \<Rightarrow> 'w \<Rightarrow> 'c globals \<Rightarrow> string \<Rightarrow> (http_exception + pydict) \<times> 'c globals" where
  "get_turn env w g tid =
     (case get_db_handles env w g of
        (Inl e, g') \<Rightarrow> (Inl (reraise_or_500 e), g')
      | (Inr handles, g') \<Rightarrow>
          (case getitem handles ''turns'' of
             Inl e \<Rightarrow> (Inl (reraise_or_500 e), g')
           | Inr c \<Rightarrow>
               (case TurnRepo_get_turn env c tid w of
                  Inl e \<Rightarrow> (Inl (reraise_or_500 e), g')
                | Inr turn \<Rightarrow>
                    (if py_not turn
                     then (Inl (HTTPException 404 ''Turn not found''), g')
                     else (Inr (the turn), g')))))"

text \<open>
  \<open>get_session_turns\<close>: the query parameters \<open>limit: int = 50\<close> and \<open>skip: int = 0\<close>
  are \<open>None\<close> here when the request leaves them out. The only handler clause is
  \<open>except Exception\<close>, so every exception becomes status 500 with detail \<open>str(e)\<close>.
\<close>

definition internal_error :: "exn \<Rightarrow> http_exception" where
  "internal_error e = HTTPException 500 (str e)"

definition turns_page :: "string \<Rightarrow> pydict list \<Rightarrow> pydict" where
  "turns_page sid turns =
     [(''session_id'', PStr sid),
      (''count'', PInt (int (length turns))),
      (''turns'', PList (map PDict turns))]"

definition get_session_turns ::
  "('w, 'c) env \<Rightarrow> 'w \<Rightarrow> 'c globals \<Rightarrow> string \<Rightarrow> int option \<Rightarrow> int option
     \<Rightarrow> (http_exception + pydict) \<times> 'c globals" where
  "get_session_turns env w g sid limit skip =
     (let limit' = (case limit of None \<Rightarrow> 50 | Some l \<Rightarrow> l);
          skip' = (case skip of None \<Rightarrow> 0 | Some s \<Rightarrow> s)
      in case get_db_handles env w g of
           (Inl e, g') \<Rightarrow> (Inl (internal_error e), g')
         | (Inr handles, g') \<Rightarrow>
             (case getitem handles ''turns'' of
                Inl e \<Rightarrow> (Inl (internal_error e), g')
              | Inr c \<Rightarrow>
                  (case TurnRepo_get_turns_by_session env c sid limit' skip' w of
                     Inl e \<Rightarrow> (Inl (internal_error e), g')
                   | Inr turns \<Rightarrow> (Inr (turns_page sid turns), g'))))"

text \<open>\<open>get_artifact\<close>: the f-string, the existence test and the file response.\<close>

definition artifact_path :: "string \<Rightarrow> string \<Rightarrow> string \<Rightarrow> string" where
  "artifact_path sid tid filename = ''artifacts/'' @ sid @ ''/'' @ tid @ ''/'' @ filename"

definition get_artifact ::
  "('w, 'c) env \<Rightarrow> 'w \<Rightarrow> string \<Rightarrow> string \<Rightarrow> string \<Rightarrow> http_exception + FileResponse" where
  "get_artifact env w sid tid filename =
     (let p = artifact_path sid tid filename
      in if \<not> os_path_exists env p w
         then Inl (HTTPException 404 ''Artifact not found'')
         else Inr \<lparr> path = p, media_type = ''image/png'' \<rparr>)"

text \<open>
  The handler returns the \<open>FileResponse\<close> unsent; the framework then calls it to answer
  the request. \<open>FileResponse_call\<close> is that call for a \<open>GET\<close>: it runs \<open>os.stat\<close> on the
  path, raises \<open>RuntimeError\<close> when the path is gone or is not a regular file (any other
  \<open>OSError\<close> passes through), and otherwise opens the file and sends its bytes under the
  response's media type.
\<close>

record file_download =
  body :: string
  content_type :: string

definition FileResponse_call ::
  "('w, 'c) env \<Rightarrow> FileResponse \<Rightarrow> 'w \<Rightarrow> exn + file_download" where
  "FileResponse_call env r w =
     (case os_stat env (path r) w of
        Inl (FileNotFoundError s) \<Rightarrow>
          Inl (RaisedException (''File at path '' @ path r @ '' does not exist.''))
      | Inl (OtherOSError s) \<Rightarrow> Inl (RaisedException s)
      | Inr t \<Rightarrow>
          (if t \<noteq> RegularFile
           then Inl (RaisedException (''File at path '' @ path r @ '' is not a file.''))
           else (case read_file env (path r) w of
                   Inl e \<Rightarrow> Inl e
                 | Inr bytes \<Rightarrow> Inr \<lparr> body = bytes, content_type = media_type r \<rparr>)))"

text \<open>
  What the client of \<open>GET /api/v1/artifacts/{session_id}/{turn_id}/{filename}\<close> gets:
  the error response of an \<open>HTTPException\<close> the handler raised, the file that the
  returned response sends, or an exception that nothing handles (the server's 500).
\<close>

datatype artifact_outcome =
    ErrorResponse http_exception
  | Download file_download
  | UnhandledError exn

definition get_artifact_route ::
  "('w, 'c) env \<Rightarrow> 'w \<Rightarrow> string \<Rightarrow> string \<Rightarrow> string \<Rightarrow> artifact_outcome" where
  "get_artifact_route env w sid tid filename =
     (case get_artifact env w sid tid filename of
        Inl h \<Rightarrow> ErrorResponse h
      | Inr r \<Rightarrow>
          (case FileResponse_call env r w of
             Inl e \<Rightarrow> UnhandledError e
           | Inr d \<Rightarrow> Download d))"

section \<open>Where a served path lies\<close>

text \<open>
  The file system resolves the relative path that \<open>get_artifact\<close> hands to it against the
  working directory, component by component: an empty component and \<open>.\<close> stay where
  they are, \<open>..\<close> steps to the parent. \<open>normpath\<close> is that resolution on the text of the
  path (symbolic links aside), as \<open>os.path.normpath\<close> computes it for a relative path:
  the components that remain, with a leading \<open>..\<close> for every step above the working
  directory.
\<close>

fun split_path :: "string \<Rightarrow> string list" where
  "split_path [] = [[]]"
| "split_path (c # cs) =
     (if c = CHR ''/'' then [] # split_path cs
      else (case split_path cs of
              [] \<Rightarrow> [[c]]
            | x # xs \<Rightarrow> (c # x) # xs))"

fun resolve :: "string list \<Rightarrow> string list \<Rightarrow> string list" where
  "resolve stack [] = rev stack"
| "resolve stack (c # cs) =
     (if c = [] \<or> c = ''.'' then resolve stack cs
      else if c = ''..'' then
        (case stack of
           [] \<Rightarrow> resolve [''..''] cs
         | d # below \<Rightarrow>
             if d = ''..'' then resolve (''..'' # stack) cs else resolve below cs)
      else resolve (c # stack) cs)"

definition normpath :: "string \<Rightarrow> string list" where
  "normpath p = resolve [] (split_path p)"

text \<open>A relative path lies under the artifact root when it resolves to \<open>artifacts/...\<close>.\<close>

definition under_artifact_root :: "string \<Rightarrow> bool" where
  "under_artifact_root p = (case normpath p of [] \<Rightarrow> False | c # cs \<Rightarrow> c = ''artifacts'')"

section \<open>The store and the pipeline runner of the specification\<close>

text \<open>
  The repositories (\<open>src/db/repositories.py\<close>), the connection (\<open>src/db/mongo.py\<close>) and
  the runner (\<open>src/api_stub/runner.py\<close>) are imported by the gateway and are not part of
  the file. The definitions of this section that are marked so follow the
  specification's description of them (its sections 3, 4.1, 4.2 and 6). With a disk and
  the module's own response class they give the gateway a concrete environment to run
  in, and they are what a statement about persisted records is settled against.
\<close>

text \<open>Modelled from the spec: the Session record of section 3 (the absent store schema);
  its turns are the Turn records that reference it.\<close>

record session =
  s_id :: string
  s_title :: string
  s_config :: pydict
  s_created_at :: nat

text \<open>Modelled from the spec: the Turn record of section 3 (the absent store schema).\<close>

record turn =
  t_id :: string
  t_session_id :: string
  t_index :: nat
  t_user_text :: string
  t_attachments :: "pydict list"
  t_ui_context :: pydict
  t_compliance_result :: string
  t_summary :: "string option"
  t_artifacts :: "pydict list"

text \<open>Modelled from the spec: the Session/Turn Store of section 4.2 (the absent database),
  a record keeper for sessions and turns, in insertion order.\<close>

record store =
  sessions :: "session list"
  turns :: "turn list"

text \<open>Modelled from the spec: \<open>CreateSession\<close> of section 4.2 (absent repository method),
  a single-record insert.\<close>

definition CreateSession :: "session \<Rightarrow> store \<Rightarrow> store" where
  "CreateSession s st = st\<lparr>sessions := sessions st @ [s]\<rparr>"

text \<open>Modelled from the spec: \<open>CreateTurn\<close> of section 4.2 (absent repository method),
  a single-record insert.\<close>

definition CreateTurn :: "turn \<Rightarrow> store \<Rightarrow> store" where
  "CreateTurn t st = st\<lparr>turns := turns st @ [t]\<rparr>"

text \<open>Modelled from the spec: \<open>GetSession(id)\<close> of section 4.2 (absent repository method);
  \<open>None\<close> is the not-found signal.\<close>

definition GetSession :: "store \<Rightarrow> string \<Rightarrow> session option" where
  "GetSession st i = find (\<lambda>s. s_id s = i) (sessions st)"

text \<open>Modelled from the spec: \<open>GetTurn(id)\<close> of section 4.2 (absent repository method);
  \<open>None\<close> is the not-found signal.\<close>

definition GetTurn :: "store \<Rightarrow> string \<Rightarrow> turn option" where
  "GetTurn st i = find (\<lambda>t. t_id t = i) (turns st)"

text \<open>Modelled from the spec: \<open>ListTurnsBySession(id, limit, skip)\<close> of section 4.2 (absent
  repository method): the session's turns by ascending turn index, paginated by offset.\<close>

definition ListTurnsBySession :: "store \<Rightarrow> string \<Rightarrow> int \<Rightarrow> int \<Rightarrow> turn list" where
  "ListTurnsBySession st i limit skip =
     take (nat limit) (drop (nat skip)
       (sort_key t_index (filter (\<lambda>t. t_session_id t = i) (turns st))))"

text \<open>Modelled from the spec: the session document that \<open>GET /api/v1/sessions/{session_id}\<close>
  returns (section 6; the absent repository's document layout).\<close>

definition session_doc :: "session \<Rightarrow> pydict" where
  "session_doc s =
     [(''session_id'', PStr (s_id s)),
      (''title'', PStr (s_title s)),
      (''config'', PDict (s_config s)),
      (''created_at'', PInt (int (s_created_at s)))]"

definition summary_val :: "string option \<Rightarrow> pyval" where
  "summary_val x = (case x of None \<Rightarrow> PNone | Some s \<Rightarrow> PStr s)"

text \<open>Modelled from the spec: the turn document that \<open>GET /api/v1/turns/{turn_id}\<close> returns
  (section 6; the absent repository's document layout).\<close>

definition turn_doc :: "turn \<Rightarrow> pydict" where
  "turn_doc t =
     [(''turn_id'', PStr (t_id t)),
      (''session_id'', PStr (t_session_id t)),
      (''turn_index'', PInt (int (t_index t))),
      (''user_text'', PStr (t_user_text t)),
      (''attachments'', PList (map PDict (t_attachments t))),
      (''ui_context'', PDict (t_ui_context t)),
      (''compliance_result'', PStr (t_compliance_result t)),
      (''summary'', summary_val (t_summary t)),
      (''artifacts'', PList (map PDict (t_artifacts t)))]"

text \<open>
  The world of the concrete environment: the store and the disk, the latter given by the
  paths at which \<open>os.stat\<close> finds a regular file, those at which it finds a directory,
  and the bytes of the regular files (none listed: an empty file).
\<close>

record world =
  w_store :: store
  w_files :: "string list"
  w_dirs :: "string list"
  w_bytes :: "(string \<times> string) list"

definition os_stat_world :: "string \<Rightarrow> world \<Rightarrow> os_error + file_type" where
  "os_stat_world p w =
     (if p \<in> set (w_files w) then Inr RegularFile
      else if p \<in> set (w_dirs w) then Inr Directory
      else Inl (FileNotFoundError (''[Errno 2] No such file or directory: '' @ p)))"

definition read_file_world :: "string \<Rightarrow> world \<Rightarrow> exn + string" where
  "read_file_world p w =
     (if p \<in> set (w_files w)
      then Inr (case map_of (w_bytes w) p of None \<Rightarrow> [] | Some b \<Rightarrow> b)
      else if p \<in> set (w_dirs w)
      then Inl (RaisedException (''[Errno 21] Is a directory: '' @ p))
      else Inl (RaisedException (''[Errno 2] No such file or directory: '' @ p)))"

datatype collection = SessionsCollection | TurnsCollection

text \<open>
  What the generation pipeline itself produces for a request (it is out of the
  specification's scope), the sources of identifiers and time, and the text of the
  model library's validation error for a rejected dict; all are parameters.
\<close>

record generated =
  gen_compliance_result :: string
  gen_summary :: "string option"
  gen_artifacts :: "pydict list"

record runner =
  runner_settings :: settings
  generate :: "run_turn_args \<Rightarrow> exn + generated"
  new_session_id :: "store \<Rightarrow> string"
  new_turn_id :: "store \<Rightarrow> string"
  now :: nat
  validation_text :: "pydict \<Rightarrow> string"

text \<open>Modelled from the spec: the turn result of \<open>CreateTurn\<close> (section 4.1: session id,
  turn id, turn index, compliance result, optional summary, artifact list), as the dict that
  the absent \<open>run_turn\<close> returns.\<close>

definition turn_result :: "turn \<Rightarrow> pydict" where
  "turn_result t =
     [(''session_id'', PStr (t_session_id t)),
      (''turn_id'', PStr (t_id t)),
      (''turn_index'', PInt (int (t_index t))),
      (''compliance_result'', PStr (t_compliance_result t)),
      (''summary'', summary_val (t_summary t)),
      (''artifacts'', PList (map PDict (t_artifacts t)))]"

text \<open>Modelled from the spec: the absent \<open>run_turn\<close> (\<open>CreateTurn\<close> of section 4.1 with the
  writes of section 4.2). Generation runs first; if it raises nothing is persisted. On
  success a missing session id creates a new Session with the given title and
  configuration, and exactly one Turn is inserted, its index the number of turns the
  session already has (the first turn has index 0, as in the example of section 8).\<close>

definition run_turn_spec :: "runner \<Rightarrow> run_turn_args \<Rightarrow> world \<Rightarrow> (exn + pydict) \<times> world" where
  "run_turn_spec rn a w =
     (case generate rn a of
        Inl e \<Rightarrow> (Inl e, w)
      | Inr out \<Rightarrow>
          (let st = w_store w;
               (sid, st1) =
                 (case arg_session_id a of
                    None \<Rightarrow>
                      (new_session_id rn st,
                       CreateSession
                         \<lparr> s_id = new_session_id rn st,
                           s_title = arg_title_if_new a,
                           s_config = arg_session_config_if_new a,
                           s_created_at = now rn \<rparr> st)
                  | Some sid \<Rightarrow> (sid, st));
               t = \<lparr> t_id = new_turn_id rn st1,
                     t_session_id = sid,
                     t_index = length (filter (\<lambda>t. t_session_id t = sid) (turns st1)),
                     t_user_text = arg_user_text a,
                     t_attachments = arg_attachments a,
                     t_ui_context = arg_ui_context a,
                     t_compliance_result = gen_compliance_result out,
                     t_summary = gen_summary out,
                     t_artifacts = gen_artifacts out \<rparr>
           in (Inr (turn_result t), w\<lparr>w_store := CreateTurn t st1\<rparr>)))"

text \<open>
  The class \<open>TurnResponse\<close> of the module (its lines 45 to 51) applied to a result dict,
  \<open>TurnResponse(**result)\<close>, field by field with the declared types: \<open>session_id\<close>,
  \<open>turn_id\<close> and \<open>compliance_result\<close> are required strings; \<open>turn_index\<close> is a required
  integer, for which the model library also takes a boolean (as 0 or 1) and a decimal
  string (an optional sign and digits, blanks around them); \<open>summary\<close> is a string or
  \<open>None\<close> and \<open>None\<close> when missing; \<open>artifacts\<close> is a list whose members are all dicts
  and the empty list when missing. Keys the class does not declare are ignored. Any
  other dict is a validation error, whose text is the parameter \<open>msg\<close>.
\<close>

definition strip_blanks :: "string \<Rightarrow> string" where
  "strip_blanks s =
     (let blank = (\<lambda>c. c \<in> set [CHR '' '', CHR 0x09, CHR 0x0A, CHR 0x0B, CHR 0x0C, CHR 0x0D])
      in rev (dropWhile blank (rev (dropWhile blank s))))"

fun decimal :: "int \<Rightarrow> string \<Rightarrow> int option" where
  "decimal n [] = Some n"
| "decimal n (c # cs) =
     (if c \<in> set ''0123456789'' then decimal (10 * n + (of_char c - 48)) cs else None)"

definition int_of_string :: "string \<Rightarrow> int option" where
  "int_of_string s =
     (case strip_blanks s of
        [] \<Rightarrow> None
      | c # cs \<Rightarrow>
          if c = CHR ''-'' then (if cs = [] then None else map_option uminus (decimal 0 cs))
          else if c = CHR ''+'' then (if cs = [] then None else decimal 0 cs)
          else decimal 0 (c # cs))"

fun as_str :: "pyval \<Rightarrow> string option" where
  "as_str (PStr s) = Some s"
| "as_str v = None"

fun as_int :: "pyval \<Rightarrow> int option" where
  "as_int (PInt i) = Some i"
| "as_int (PBool b) = Some (if b then 1 else 0)"
| "as_int (PStr s) = int_of_string s"
| "as_int v = None"

fun as_optional_str :: "pyval option \<Rightarrow> string option option" where
  "as_optional_str None = Some None"
| "as_optional_str (Some PNone) = Some None"
| "as_optional_str (Some (PStr s)) = Some (Some s)"
| "as_optional_str (Some v) = None"

fun as_dicts :: "pyval list \<Rightarrow> pydict list option" where
  "as_dicts [] = Some []"
| "as_dicts (PDict d # xs) = map_option ((#) d) (as_dicts xs)"
| "as_dicts (v # xs) = None"

fun as_dict_list :: "pyval option \<Rightarrow> pydict list option" where
  "as_dict_list None = Some []"
| "as_dict_list (Some (PList xs)) = as_dicts xs"
| "as_dict_list (Some v) = None"

definition TurnResponse_of_dict :: "(pydict \<Rightarrow> string) \<Rightarrow> pydict \<Rightarrow> exn + TurnResponse" where
  "TurnResponse_of_dict msg d =
     (case (Option.bind (map_of d ''session_id'') as_str,
            Option.bind (map_of d ''turn_id'') as_str,
            Option.bind (map_of d ''turn_index'') as_int,
            Option.bind (map_of d ''compliance_result'') as_str,
            as_optional_str (map_of d ''summary''),
            as_dict_list (map_of d ''artifacts'')) of
        (Some sid, Some tid, Some idx, Some cr, Some sm, Some arts) \<Rightarrow>
          Inr \<lparr> resp_session_id = sid, resp_turn_id = tid, resp_turn_index = idx,
                resp_compliance_result = cr, resp_summary = sm, resp_artifacts = arts \<rparr>
      | _ \<Rightarrow> Inl (RaisedException (msg d)))"

text \<open>Modelled from the spec: the reads of section 4.2 behind the absent repository and
  collection methods; an absent record is the not-found signal, never an exception.\<close>

definition find_one_spec :: "collection \<Rightarrow> pydict \<Rightarrow> world \<Rightarrow> exn + pydict option" where
  "find_one_spec c q w =
     (case map_of q ''_id'' of
        Some (PStr i) \<Rightarrow>
          (case c of
             SessionsCollection \<Rightarrow> Inr (map_option session_doc (GetSession (w_store w) i))
           | TurnsCollection \<Rightarrow> Inr (map_option turn_doc (GetTurn (w_store w) i)))
      | _ \<Rightarrow> Inr None)"

text \<open>Modelled from the spec: the environment of the gateway made of the store and the
  runner above (the absent modules \<open>src.db\<close>, \<open>src.app.settings\<close> and \<open>src.api_stub\<close>).\<close>

definition spec_env :: "runner \<Rightarrow> (world, collection) env" where
  "spec_env rn =
     \<lparr> load_settings = (\<lambda>w. Inr (runner_settings rn)),
       connect_mongo =
         (\<lambda>uri db w. Inr [(''sessions'', SessionsCollection), (''turns'', TurnsCollection)]),
       find_one = find_one_spec,
       SessionRepo_get_session = (\<lambda>c i w. Inr (map_option session_doc (GetSession (w_store w) i))),
       TurnRepo_get_turn = (\<lambda>c i w. Inr (map_option turn_doc (GetTurn (w_store w) i))),
       TurnRepo_get_turns_by_session =
         (\<lambda>c i limit skip w. Inr (map turn_doc (ListTurnsBySession (w_store w) i limit skip))),
       run_turn = run_turn_spec rn,
       TurnResponse_init = TurnResponse_of_dict (validation_text rn),
       os_stat = os_stat_world,
       read_file = read_file_world \<rparr>"

subsection \<open>Concrete inputs\<close>

definition empty_world :: world where
  "empty_world =
     \<lparr> w_store = \<lparr> sessions = [], turns = [] \<rparr>, w_files = [], w_dirs = [], w_bytes = [] \<rparr>"

text \<open>
  A disk on which the turn \<open>t1\<close> of the session \<open>s1\<close> has one image, \<open>banner.png\<close>, and
  a directory \<open>thumbs\<close> beside it; \<open>artifacts/s1/t1/..\<close> is the session's directory.
\<close>

definition shelf_world :: world where
  "shelf_world =
     empty_world
       \<lparr> w_files := [''artifacts/s1/t1/banner.png''],
         w_dirs := [''artifacts/s1/t1/thumbs'', ''artifacts/s1/t1/..''],
         w_bytes := [(''artifacts/s1/t1/banner.png'', ''PNG'')] \<rparr>"

definition passing_runner :: runner where
  "passing_runner =
     \<lparr> runner_settings = \<lparr> mongo_uri = ''mongodb://localhost:27017'', mongo_db = ''creative'' \<rparr>,
       generate = (\<lambda>a. Inr \<lparr> gen_compliance_result = ''pass'', gen_summary = None,
                              gen_artifacts = [] \<rparr>),
       new_session_id = (\<lambda>st. ''s1''),
       new_turn_id = (\<lambda>st. ''t1''),
       now = 0,
       validation_text = (\<lambda>d. ''validation error for TurnResponse'') \<rparr>"

definition failing_runner :: runner where
  "failing_runner = passing_runner\<lparr>generate := (\<lambda>a. Inl (RaisedException ''model unavailable''))\<rparr>"

definition banner_body :: turn_body where
  "banner_body =
     \<lparr> body_user_text = ''make a banner'',
       body_session_id = Omitted,
       body_attachments = Omitted,
       body_ui_context = Omitted,
       body_title_if_new = Omitted,
       body_session_config = Omitted \<rparr>"

definition untitled_body :: turn_body where
  "untitled_body = banner_body\<lparr>body_title_if_new := Given ''''\<rparr>"

definition spring_body :: turn_body where
  "spring_body = banner_body\<lparr>body_title_if_new := Given ''Spring''\<rparr>"

definition null_payload_body :: turn_body where
  "null_payload_body =
     banner_body\<lparr>body_attachments := Null, body_ui_context := Null, body_session_config := Null\<rparr>"

text \<open>An environment whose database refuses the connection.\<close>

definition refused_env :: "(world, collection) env" where
  "refused_env =
     (spec_env passing_runner)
       \<lparr>connect_mongo := (\<lambda>uri db w. Inl (RaisedException ''connection refused''))\<rparr>"

text \<open>A store that holds one session and no turn.\<close>

definition idle_session_world :: world where
  "idle_session_world =
     \<lparr> w_store =
         \<lparr> sessions = [\<lparr> s_id = ''s1'', s_title = ''New Session'', s_config = [],
                          s_created_at = 0 \<rparr>],
           turns = [] \<rparr>,
       w_files = [], w_dirs = [], w_bytes = [] \<rparr>"

section \<open>Properties of the handlers\<close>

subsection \<open>Shared facts\<close>

text \<open>
  \<open>create_turn\<close> calls the runner once, with the arguments \<open>run_turn_args_of\<close> builds,
  and writes nothing itself: the world it leaves is the world that call leaves.
\<close>

lemma create_turn_world:
  "snd (create_turn env request w) = snd (run_turn env (run_turn_args_of request) w)"
  by (simp add: create_turn_def split: prod.split sum.split)

lemma get_db_handles_cached:
  "global_handles g = Some h \<Longrightarrow> get_db_handles env w g = (Inr h, g)"
  by (simp add: get_db_handles_def)

lemma spec_env_connects:
  "get_db_handles (spec_env rn) w initial_globals =
     (Inr [(''sessions'', SessionsCollection), (''turns'', TurnsCollection)],
      \<lparr> global_settings = Some (runner_settings rn),
        global_handles = Some [(''sessions'', SessionsCollection), (''turns'', TurnsCollection)] \<rparr>)"
  by (simp add: get_db_handles_def spec_env_def initial_globals_def)

lemma run_turn_spec_new_session:
  assumes "arg_session_id a = None" and "generate rn a = Inr out"
  shows "sessions (w_store (snd (run_turn_spec rn a w))) =
           sessions (w_store w) @
             [\<lparr> s_id = new_session_id rn (w_store w), s_title = arg_title_if_new a,
                s_config = arg_session_config_if_new a, s_created_at = now rn \<rparr>]"
  using assms by (simp add: run_turn_spec_def CreateSession_def CreateTurn_def Let_def)

subsection \<open>Turn creation: errors\<close>

text \<open>
  C1. Whenever the call to \<open>run_turn\<close> raises an exception \<open>e\<close> (of any class, an
  \<open>HTTPException\<close> included), \<open>create_turn\<close> raises \<open>HTTPException\<close> with status 500
  whose detail is the fixed prefix \<open>"Turn generation failed: "\<close> followed by \<open>str(e)\<close>,
  character for character. The world left behind is the one the single call to
  \<open>run_turn\<close> left: the runner is not called a second time.
\<close>

theorem create_turn_runner_error:
  assumes "run_turn env (run_turn_args_of request) w = (Inl e, w')"
  shows "create_turn env request w =
           (Inl (HTTPException 500 (''Turn generation failed: '' @ str e)), w')"
  using assms by (simp add: create_turn_def generation_failed_def)

theorem create_turn_runner_error_witness:
  "run_turn (spec_env failing_runner) (run_turn_args_of (TurnRequest_init banner_body)) empty_world
      = (Inl (RaisedException ''model unavailable''), empty_world)
   \<and> create_turn (spec_env failing_runner) (TurnRequest_init banner_body) empty_world
      = (Inl (HTTPException 500 ''Turn generation failed: model unavailable''), empty_world)"
proof -
  have h: "run_turn (spec_env failing_runner) (run_turn_args_of (TurnRequest_init banner_body))
             empty_world = (Inl (RaisedException ''model unavailable''), empty_world)"
    by (simp add: spec_env_def run_turn_spec_def failing_runner_def passing_runner_def)
  from create_turn_runner_error [OF h] h show ?thesis by simp
qed

subsection \<open>Reads of absent records\<close>

text \<open>
  C2. When the connection is available and the repository reports the session absent
  (its not-found signal \<open>None\<close>), \<open>get_session\<close> raises \<open>HTTPException\<close> with status 404
  and detail \<open>"Session not found"\<close>; likewise \<open>get_turn\<close> raises status 404 with detail
  \<open>"Turn not found"\<close> for an absent turn. Neither outcome is a 500.
\<close>

theorem absent_record_not_found:
  "(get_db_handles env w g = (Inr handles, g') \<and> getitem handles ''sessions'' = Inr c
      \<and> SessionRepo_get_session env c sid w = Inr None
     \<longrightarrow> get_session env w g sid = (Inl (HTTPException 404 ''Session not found''), g'))
   \<and> (get_db_handles env w g = (Inr handles, g') \<and> getitem handles ''turns'' = Inr c'
      \<and> TurnRepo_get_turn env c' tid w = Inr None
     \<longrightarrow> get_turn env w g tid = (Inl (HTTPException 404 ''Turn not found''), g'))"
  by (simp add: get_session_def get_turn_def py_not_def)

theorem absent_record_not_found_witness:
  "fst (get_session (spec_env passing_runner) empty_world initial_globals ''s404'')
     = Inl (HTTPException 404 ''Session not found'')
   \<and> fst (get_turn (spec_env passing_runner) empty_world initial_globals ''t404'')
     = Inl (HTTPException 404 ''Turn not found'')"
proof -
  let ?env = "spec_env passing_runner"
  let ?hs = "[(''sessions'', SessionsCollection), (''turns'', TurnsCollection)]"
  let ?g = "\<lparr> global_settings = Some (runner_settings passing_runner),
              global_handles = Some ?hs \<rparr>"
  have h: "get_db_handles ?env empty_world initial_globals = (Inr ?hs, ?g)"
    by (rule spec_env_connects)
  have a: "getitem ?hs ''sessions'' = Inr SessionsCollection" by (simp add: getitem_def)
  have b: "getitem ?hs ''turns'' = Inr TurnsCollection" by (simp add: getitem_def)
  have c: "SessionRepo_get_session ?env SessionsCollection ''s404'' empty_world = Inr None"
    by (simp add: spec_env_def GetSession_def empty_world_def)
  have d: "TurnRepo_get_turn ?env TurnsCollection ''t404'' empty_world = Inr None"
    by (simp add: spec_env_def GetTurn_def empty_world_def)
  note inst = absent_record_not_found [of ?env empty_world initial_globals ?hs ?g
      SessionsCollection "''s404''" TurnsCollection "''t404''"]
  have "get_session ?env empty_world initial_globals ''s404''
          = (Inl (HTTPException 404 ''Session not found''), ?g)"
    using inst h a c by blast
  moreover have "get_turn ?env empty_world initial_globals ''t404''
          = (Inl (HTTPException 404 ''Turn not found''), ?g)"
    using inst h b d by blast
  ultimately show ?thesis by simp
qed

subsection \<open>Artifacts\<close>

text \<open>
  The handler alone: a 404 when \<open>os.path.exists\<close> answers no for the path, otherwise the
  unsent file response for that path.
\<close>

lemma get_artifact_handler:
  "get_artifact env w sid tid filename =
     (if os_path_exists env (artifact_path sid tid filename) w
      then Inr \<lparr> path = artifact_path sid tid filename, media_type = ''image/png'' \<rparr>
      else Inl (HTTPException 404 ''Artifact not found''))"
  by (simp add: get_artifact_def Let_def)

text \<open>
  C3. What the route does, for every session id, turn id and file name, is decided by
  what \<open>os.stat\<close> finds at the one path \<open>artifacts/{session_id}/{turn_id}/{filename}\<close>.
  Where it finds nothing, the client gets the 404 with detail \<open>"Artifact not found"\<close>.
  Where it finds a regular file that can be read, the client gets the file's bytes with
  media type \<open>image/png\<close>. Where it finds something that is not a regular file, a
  directory for one, the existence test of the handler passes, the handler returns the
  file response, and sending it raises \<open>RuntimeError\<close>, which nothing handles: there no
  file exists at the path, and the answer is neither the 404 nor free of an unhandled
  error. On a disk where \<open>artifacts/s1/t1\<close> holds \<open>banner.png\<close> and a directory
  \<open>thumbs\<close>, the file names \<open>thumbs\<close> and \<open>..\<close> end in the unhandled error, \<open>banner.png\<close>
  is downloaded, and \<open>missing.png\<close> is a 404.
\<close>

theorem get_artifact_route_outcome:
  "get_artifact_route env w sid tid filename =
     (case os_stat env (artifact_path sid tid filename) w of
        Inl e \<Rightarrow> ErrorResponse (HTTPException 404 ''Artifact not found'')
      | Inr t \<Rightarrow>
          (if t \<noteq> RegularFile
           then UnhandledError (RaisedException
                  (''File at path '' @ artifact_path sid tid filename @ '' is not a file.''))
           else (case read_file env (artifact_path sid tid filename) w of
                   Inl e \<Rightarrow> UnhandledError e
                 | Inr bytes \<Rightarrow> Download \<lparr> body = bytes, content_type = ''image/png'' \<rparr>)))
   \<and> get_artifact (spec_env passing_runner) shelf_world ''s1'' ''t1'' ''thumbs'' =
       Inr \<lparr> path = ''artifacts/s1/t1/thumbs'', media_type = ''image/png'' \<rparr>
   \<and> get_artifact_route (spec_env passing_runner) shelf_world ''s1'' ''t1'' ''thumbs'' =
       UnhandledError (RaisedException ''File at path artifacts/s1/t1/thumbs is not a file.'')
   \<and> get_artifact_route (spec_env passing_runner) shelf_world ''s1'' ''t1'' ''..'' =
       UnhandledError (RaisedException ''File at path artifacts/s1/t1/.. is not a file.'')
   \<and> get_artifact_route (spec_env passing_runner) shelf_world ''s1'' ''t1'' ''banner.png'' =
       Download \<lparr> body = ''PNG'', content_type = ''image/png'' \<rparr>
   \<and> get_artifact_route (spec_env passing_runner) shelf_world ''s1'' ''t1'' ''missing.png'' =
       ErrorResponse (HTTPException 404 ''Artifact not found'')"
proof (intro conjI)
  show "get_artifact_route env w sid tid filename =
     (case os_stat env (artifact_path sid tid filename) w of
        Inl e \<Rightarrow> ErrorResponse (HTTPException 404 ''Artifact not found'')
      | Inr t \<Rightarrow>
          (if t \<noteq> RegularFile
           then UnhandledError (RaisedException
                  (''File at path '' @ artifact_path sid tid filename @ '' is not a file.''))
           else (case read_file env (artifact_path sid tid filename) w of
                   Inl e \<Rightarrow> UnhandledError e
                 | Inr bytes \<Rightarrow> Download \<lparr> body = bytes, content_type = ''image/png'' \<rparr>)))"
    by (simp add: get_artifact_route_def get_artifact_handler os_path_exists_def
        FileResponse_call_def split: sum.split)
  have st: "os_stat (spec_env passing_runner) = os_stat_world"
    and rd: "read_file (spec_env passing_runner) = read_file_world"
    by (simp_all add: spec_env_def)
  have f: "w_files shelf_world = [''artifacts/s1/t1/banner.png'']"
    and d: "w_dirs shelf_world = [''artifacts/s1/t1/thumbs'', ''artifacts/s1/t1/..'']"
    and b: "w_bytes shelf_world = [(''artifacts/s1/t1/banner.png'', ''PNG'')]"
    by (simp_all add: shelf_world_def)
  show "get_artifact (spec_env passing_runner) shelf_world ''s1'' ''t1'' ''thumbs'' =
       Inr \<lparr> path = ''artifacts/s1/t1/thumbs'', media_type = ''image/png'' \<rparr>"
    by (simp add: get_artifact_handler os_path_exists_def artifact_path_def st
        os_stat_world_def f d)
  show "get_artifact_route (spec_env passing_runner) shelf_world ''s1'' ''t1'' ''thumbs'' =
       UnhandledError (RaisedException ''File at path artifacts/s1/t1/thumbs is not a file.'')"
    by (simp add: get_artifact_route_def get_artifact_handler os_path_exists_def
        FileResponse_call_def artifact_path_def st os_stat_world_def f d)
  show "get_artifact_route (spec_env passing_runner) shelf_world ''s1'' ''t1'' ''..'' =
       UnhandledError (RaisedException ''File at path artifacts/s1/t1/.. is not a file.'')"
    by (simp add: get_artifact_route_def get_artifact_handler os_path_exists_def
        FileResponse_call_def artifact_path_def st os_stat_world_def f d)
  show "get_artifact_route (spec_env passing_runner) shelf_world ''s1'' ''t1'' ''banner.png'' =
       Download \<lparr> body = ''PNG'', content_type = ''image/png'' \<rparr>"
    by (simp add: get_artifact_route_def get_artifact_handler os_path_exists_def
        FileResponse_call_def artifact_path_def st rd os_stat_world_def read_file_world_def f d b)
  show "get_artifact_route (spec_env passing_runner) shelf_world ''s1'' ''t1'' ''missing.png'' =
       ErrorResponse (HTTPException 404 ''Artifact not found'')"
    by (simp add: get_artifact_route_def get_artifact_handler os_path_exists_def
        artifact_path_def st os_stat_world_def f d)
qed

subsection \<open>Health\<close>

text \<open>
  C4. Every execution of \<open>health_check\<close> returns a response and raises nothing,
  whatever the connection and the probe read do; the \<open>database\<close> field of the response
  is \<open>"connected"\<close> or \<open>"error: "\<close> followed by the text of the exception that was caught.
\<close>

theorem health_check_never_raises:
  "\<exists>resp g'. health_check env w g = (Inr resp, g')
      \<and> (database resp = ''connected'' \<or> (\<exists>e. database resp = ''error: '' @ str e))"
  by (auto simp add: health_check_def split: prod.split sum.split)

text \<open>An execution in which the connection is refused.\<close>

lemma health_check_refused:
  "health_check refused_env empty_world initial_globals =
     (Inr \<lparr> status = ''healthy'', version = ''1.0.0'',
            database = ''error: connection refused'' \<rparr>,
      \<lparr> global_settings = Some (runner_settings passing_runner), global_handles = None \<rparr>)"
  by (simp add: health_check_def health_probe_def get_db_handles_def refused_env_def spec_env_def
      initial_globals_def)

subsection \<open>Listing the turns of a session\<close>

text \<open>
  C5. \<open>get_session_turns\<close> with \<open>limit\<close> left out behaves as with \<open>limit = 50\<close>, and
  with \<open>skip\<close> left out as with \<open>skip = 0\<close>. When the connection is available and the
  repository yields no turn for the session (it has none, or there is no such
  session), the handler returns the dict with that session id, \<open>count\<close> 0 and an empty
  \<open>turns\<close> list, and raises nothing.
\<close>

theorem get_session_turns_defaults_and_empty:
  "get_session_turns env w g sid limit skip =
     get_session_turns env w g sid
       (Some (case limit of None \<Rightarrow> 50 | Some l \<Rightarrow> l))
       (Some (case skip of None \<Rightarrow> 0 | Some s \<Rightarrow> s))
   \<and> (get_db_handles env w g = (Inr handles, g') \<and> getitem handles ''turns'' = Inr c
        \<and> TurnRepo_get_turns_by_session env c sid
             (case limit of None \<Rightarrow> 50 | Some l \<Rightarrow> l)
             (case skip of None \<Rightarrow> 0 | Some s \<Rightarrow> s) w = Inr []
      \<longrightarrow> get_session_turns env w g sid limit skip =
            (Inr [(''session_id'', PStr sid), (''count'', PInt 0), (''turns'', PList [])], g'))"
  by (simp add: get_session_turns_def turns_page_def)

theorem get_session_turns_defaults_and_empty_witness:
  "fst (get_session_turns (spec_env passing_runner) idle_session_world initial_globals
          ''s1'' None None)
     = Inr [(''session_id'', PStr ''s1''), (''count'', PInt 0), (''turns'', PList [])]
   \<and> fst (get_session_turns (spec_env passing_runner) idle_session_world initial_globals
          ''s404'' None None)
     = Inr [(''session_id'', PStr ''s404''), (''count'', PInt 0), (''turns'', PList [])]"
proof -
  let ?env = "spec_env passing_runner"
  let ?hs = "[(''sessions'', SessionsCollection), (''turns'', TurnsCollection)]"
  let ?g = "\<lparr> global_settings = Some (runner_settings passing_runner),
              global_handles = Some ?hs \<rparr>"
  have h: "get_db_handles ?env idle_session_world initial_globals = (Inr ?hs, ?g)"
    by (rule spec_env_connects)
  have b: "getitem ?hs ''turns'' = Inr TurnsCollection" by (simp add: getitem_def)
  have c: "TurnRepo_get_turns_by_session ?env TurnsCollection sid
             (case None of None \<Rightarrow> 50 | Some l \<Rightarrow> l) (case None of None \<Rightarrow> 0 | Some s \<Rightarrow> s)
             idle_session_world = Inr []"
    for sid
    by (simp add: spec_env_def ListTurnsBySession_def idle_session_world_def)
  have "get_session_turns ?env idle_session_world initial_globals ''s1'' None None
         = (Inr [(''session_id'', PStr ''s1''), (''count'', PInt 0), (''turns'', PList [])], ?g)"
    using get_session_turns_defaults_and_empty [of ?env idle_session_world initial_globals
        "''s1''" None None ?hs ?g TurnsCollection] h b c [of "''s1''"] by blast
  moreover
  have "get_session_turns ?env idle_session_world initial_globals ''s404'' None None
         = (Inr [(''session_id'', PStr ''s404''), (''count'', PInt 0), (''turns'', PList [])], ?g)"
    using get_session_turns_defaults_and_empty [of ?env idle_session_world initial_globals
        "''s404''" None None ?hs ?g TurnsCollection] h b c [of "''s404''"] by blast
  ultimately show ?thesis by simp
qed

subsection \<open>Turn creation: what the runner is given\<close>

text \<open>
  C6 (as amended). For every request to create a turn that has no session id and on
  which the runner returns, a new session is created whose stored title equals the
  \<open>title_if_new\<close> that was sent when that is a non-empty string, and is \<open>"New Session"\<close>
  when \<open>title_if_new\<close> is left out, \<open>null\<close> or the empty string. The gateway's part holds
  for every runner: it passes the session id as sent (\<open>None\<close> when left out or \<open>null\<close>)
  and that title into the one call to \<open>run_turn\<close>. The stored session is that of the
  store and runner of the specification.
\<close>

theorem create_turn_new_session_title:
  "arg_session_id (run_turn_args_of (TurnRequest_init b)) =
     (case body_session_id b of Given s \<Rightarrow> Some s | _ \<Rightarrow> None)
   \<and> arg_title_if_new (run_turn_args_of (TurnRequest_init b)) =
     (case body_title_if_new b of
        Given t \<Rightarrow> if t = [] then ''New Session'' else t
      | _ \<Rightarrow> ''New Session'')
   \<and> snd (create_turn env (TurnRequest_init b) w) =
       snd (run_turn env (run_turn_args_of (TurnRequest_init b)) w)
   \<and> (session_id (TurnRequest_init b) = None
        \<and> fst (run_turn (spec_env rn) (run_turn_args_of (TurnRequest_init b)) ws) = Inr result
      \<longrightarrow> (\<exists>s. sessions (w_store (snd (create_turn (spec_env rn) (TurnRequest_init b) ws)))
                  = sessions (w_store ws) @ [s]
              \<and> s_title s =
                  (case body_title_if_new b of
                     Given t \<Rightarrow> if t = [] then ''New Session'' else t
                   | _ \<Rightarrow> ''New Session'')))"
proof (intro conjI)
  let ?a = "run_turn_args_of (TurnRequest_init b)"
  show "arg_session_id ?a = (case body_session_id b of Given s \<Rightarrow> Some s | _ \<Rightarrow> None)"
    by (simp add: run_turn_args_of_def TurnRequest_init_def field_value_def split: field.split)
  show t: "arg_title_if_new ?a =
     (case body_title_if_new b of
        Given t \<Rightarrow> if t = [] then ''New Session'' else t
      | _ \<Rightarrow> ''New Session'')"
    by (simp add: run_turn_args_of_def TurnRequest_init_def field_value_def py_or_def
        split: field.split)
  show "snd (create_turn env (TurnRequest_init b) w) = snd (run_turn env ?a w)"
    by (rule create_turn_world)
  show "session_id (TurnRequest_init b) = None
        \<and> fst (run_turn (spec_env rn) ?a ws) = Inr result
      \<longrightarrow> (\<exists>s. sessions (w_store (snd (create_turn (spec_env rn) (TurnRequest_init b) ws)))
                  = sessions (w_store ws) @ [s]
              \<and> s_title s =
                  (case body_title_if_new b of
                     Given t \<Rightarrow> if t = [] then ''New Session'' else t
                   | _ \<Rightarrow> ''New Session''))"
  proof (intro impI, elim conjE)
    assume n: "session_id (TurnRequest_init b) = None"
      and r: "fst (run_turn (spec_env rn) ?a ws) = Inr result"
    from n have a: "arg_session_id ?a = None"
      by (simp add: run_turn_args_of_def)
    from r have "fst (run_turn_spec rn ?a ws) = Inr result"
      by (simp add: spec_env_def)
    then obtain out where g: "generate rn ?a = Inr out"
      by (cases "generate rn ?a") (simp_all add: run_turn_spec_def)
    have "snd (create_turn (spec_env rn) (TurnRequest_init b) ws) = snd (run_turn_spec rn ?a ws)"
      by (simp add: create_turn_world spec_env_def)
    then have "sessions (w_store (snd (create_turn (spec_env rn) (TurnRequest_init b) ws))) =
        sessions (w_store ws) @
          [\<lparr> s_id = new_session_id rn (w_store ws), s_title = arg_title_if_new ?a,
             s_config = arg_session_config_if_new ?a, s_created_at = now rn \<rparr>]"
      by (simp add: run_turn_spec_new_session [OF a g])
    then show "\<exists>s. sessions (w_store (snd (create_turn (spec_env rn) (TurnRequest_init b) ws)))
                  = sessions (w_store ws) @ [s]
              \<and> s_title s =
                  (case body_title_if_new b of
                     Given t \<Rightarrow> if t = [] then ''New Session'' else t
                   | _ \<Rightarrow> ''New Session'')"
      using t by simp
  qed
qed

theorem create_turn_new_session_title_witness:
  "session_id (TurnRequest_init spring_body) = None
   \<and> map s_title (sessions (w_store (snd
         (create_turn (spec_env passing_runner) (TurnRequest_init spring_body) empty_world))))
       = [''Spring'']"
proof -
  let ?rq = "TurnRequest_init spring_body"
  let ?res = "projr (fst (run_turn (spec_env passing_runner) (run_turn_args_of ?rq) empty_world))"
  let ?after = "sessions (w_store (snd (create_turn (spec_env passing_runner) ?rq empty_world)))"
  have n: "session_id ?rq = None"
    by (simp add: TurnRequest_init_def field_value_def spring_body_def banner_body_def)
  have p: "fst (run_turn (spec_env passing_runner) (run_turn_args_of ?rq) empty_world) = Inr ?res"
    by (simp add: spec_env_def run_turn_spec_def passing_runner_def Let_def split: option.split)
  have e: "sessions (w_store empty_world) = []"
    by (simp add: empty_world_def)
  have c: "(case body_title_if_new spring_body of
              Given t \<Rightarrow> if t = [] then ''New Session'' else t
            | _ \<Rightarrow> ''New Session'') = ''Spring''"
    by (simp add: spring_body_def)
  have "\<exists>s. ?after = sessions (w_store empty_world) @ [s]
          \<and> s_title s =
              (case body_title_if_new spring_body of
                 Given t \<Rightarrow> if t = [] then ''New Session'' else t
               | _ \<Rightarrow> ''New Session'')"
    by (rule create_turn_new_session_title [of spring_body "spec_env passing_runner" empty_world
          passing_runner empty_world ?res, THEN conjunct2, THEN conjunct2, THEN conjunct2,
          THEN mp, OF conjI [OF n p]])
  then obtain s where "?after = [s]" and "s_title s = ''Spring''"
    unfolding e c by auto
  then have "map s_title ?after = [''Spring'']"
    by simp
  with n show ?thesis by simp
qed

text \<open>
  The claim as first stated fails for a body with no session id whose \<open>title_if_new\<close> is
  the empty string: the runner is given \<open>"New Session"\<close>, and the session the
  specification's runner stores carries that title, not the empty one that was sent.
\<close>

theorem stored_title_counterexample:
  "body_session_id untitled_body = Omitted
   \<and> body_title_if_new untitled_body = Given ''''
   \<and> arg_title_if_new (run_turn_args_of (TurnRequest_init untitled_body)) = ''New Session''
   \<and> map s_title (sessions (w_store (snd
         (create_turn (spec_env passing_runner) (TurnRequest_init untitled_body) empty_world))))
       = [''New Session'']"
proof (intro conjI)
  show "body_session_id untitled_body = Omitted"
    by (simp add: untitled_body_def banner_body_def)
  show "body_title_if_new untitled_body = Given ''''"
    by (simp add: untitled_body_def)
  show t: "arg_title_if_new (run_turn_args_of (TurnRequest_init untitled_body)) = ''New Session''"
    by (simp add: run_turn_args_of_def TurnRequest_init_def field_value_def py_or_def
        untitled_body_def)
  have s: "arg_session_id (run_turn_args_of (TurnRequest_init untitled_body)) = None"
    by (simp add: run_turn_args_of_def TurnRequest_init_def field_value_def
        untitled_body_def banner_body_def)
  have g: "generate passing_runner (run_turn_args_of (TurnRequest_init untitled_body)) =
      Inr \<lparr> gen_compliance_result = ''pass'', gen_summary = None, gen_artifacts = [] \<rparr>"
    by (simp add: passing_runner_def)
  have "snd (create_turn (spec_env passing_runner) (TurnRequest_init untitled_body) empty_world)
      = snd (run_turn_spec passing_runner (run_turn_args_of (TurnRequest_init untitled_body))
               empty_world)"
    by (simp add: create_turn_world spec_env_def)
  then show "map s_title (sessions (w_store (snd
         (create_turn (spec_env passing_runner) (TurnRequest_init untitled_body) empty_world))))
       = [''New Session'']"
    by (simp add: run_turn_spec_new_session [OF s g] t empty_world_def)
qed

text \<open>
  C8 (as amended). For every body of \<open>POST /api/v1/turns\<close>, \<open>create_turn\<close> hands the
  runner each of \<open>attachments\<close>, \<open>ui_context\<close> and \<open>session_config\<close> exactly as sent
  whenever a value was sent; a payload that is left out or sent as \<open>null\<close> reaches the
  runner as the empty list (attachments) or the empty dict. The runner is called with
  exactly these arguments.
\<close>

theorem create_turn_forwards_payloads:
  "arg_attachments (run_turn_args_of (TurnRequest_init b)) =
     (case body_attachments b of Given a \<Rightarrow> a | _ \<Rightarrow> [])
   \<and> arg_ui_context (run_turn_args_of (TurnRequest_init b)) =
     (case body_ui_context b of Given u \<Rightarrow> u | _ \<Rightarrow> [])
   \<and> arg_session_config_if_new (run_turn_args_of (TurnRequest_init b)) =
     (case body_session_config b of Given c \<Rightarrow> c | _ \<Rightarrow> [])
   \<and> snd (create_turn env (TurnRequest_init b) w) =
       snd (run_turn env (run_turn_args_of (TurnRequest_init b)) w)"
proof (intro conjI)
  show "arg_attachments (run_turn_args_of (TurnRequest_init b)) =
     (case body_attachments b of Given a \<Rightarrow> a | _ \<Rightarrow> [])"
    by (simp add: run_turn_args_of_def TurnRequest_init_def field_value_def py_or_def
        split: field.split)
  show "arg_ui_context (run_turn_args_of (TurnRequest_init b)) =
     (case body_ui_context b of Given u \<Rightarrow> u | _ \<Rightarrow> [])"
    by (simp add: run_turn_args_of_def TurnRequest_init_def field_value_def py_or_def
        split: field.split)
  show "arg_session_config_if_new (run_turn_args_of (TurnRequest_init b)) =
     (case body_session_config b of Given c \<Rightarrow> c | _ \<Rightarrow> [])"
    by (simp add: run_turn_args_of_def TurnRequest_init_def field_value_def py_or_def
        split: field.split)
  show "snd (create_turn env (TurnRequest_init b) w) =
       snd (run_turn env (run_turn_args_of (TurnRequest_init b)) w)"
    by (rule create_turn_world)
qed

text \<open>
  The claim as first stated fails for a body that sends \<open>"attachments": null\<close>: the model
  holds \<open>None\<close>, and the runner is given the empty list instead.
\<close>

theorem null_payload_counterexample:
  "body_attachments null_payload_body = Null
   \<and> attachments (TurnRequest_init null_payload_body) = None
   \<and> arg_attachments (run_turn_args_of (TurnRequest_init null_payload_body)) = []
   \<and> Some (arg_attachments (run_turn_args_of (TurnRequest_init null_payload_body)))
        \<noteq> attachments (TurnRequest_init null_payload_body)"
  by (simp add: run_turn_args_of_def TurnRequest_init_def field_value_def py_or_def
      null_payload_body_def)

subsection \<open>Turn creation: what is persisted\<close>

text \<open>
  C7. With the store and the runner of the specification: whenever the runner raises,
  \<open>create_turn\<close> raises the 500 and the world after the request is the world before it;
  whenever the runner returns, the turns after the request are the turns before it
  followed by exactly one new turn, and the sessions are the sessions before it,
  followed by at most one new session.
\<close>

theorem create_turn_all_or_nothing:
  "(fst (run_turn (spec_env rn) (run_turn_args_of request) w) = Inl e
      \<longrightarrow> create_turn (spec_env rn) request w = (Inl (generation_failed e), w))
   \<and> (fst (run_turn (spec_env rn) (run_turn_args_of request) w) = Inr result
      \<longrightarrow> (\<exists>t. turns (w_store (snd (create_turn (spec_env rn) request w)))
                  = turns (w_store w) @ [t])
          \<and> (sessions (w_store (snd (create_turn (spec_env rn) request w))) = sessions (w_store w)
             \<or> (\<exists>s. sessions (w_store (snd (create_turn (spec_env rn) request w)))
                  = sessions (w_store w) @ [s])))"
  by (auto simp add: create_turn_def spec_env_def run_turn_spec_def CreateTurn_def CreateSession_def
      Let_def split: sum.splits option.splits prod.splits)

theorem create_turn_all_or_nothing_witness:
  "create_turn (spec_env failing_runner) (TurnRequest_init banner_body) empty_world =
     (Inl (HTTPException 500 ''Turn generation failed: model unavailable''), empty_world)
   \<and> (\<exists>t. turns (w_store (snd (create_turn (spec_env passing_runner)
                (TurnRequest_init banner_body) empty_world))) = [t])
   \<and> length (sessions (w_store (snd (create_turn (spec_env passing_runner)
                (TurnRequest_init banner_body) empty_world)))) \<le> 1"
proof -
  let ?rq = "TurnRequest_init banner_body"
  let ?res = "projr (fst (run_turn (spec_env passing_runner) (run_turn_args_of ?rq) empty_world))"
  let ?after = "w_store (snd (create_turn (spec_env passing_runner) ?rq empty_world))"
  have f: "fst (run_turn (spec_env failing_runner) (run_turn_args_of ?rq) empty_world)
             = Inl (RaisedException ''model unavailable'')"
    by (simp add: spec_env_def run_turn_spec_def failing_runner_def)
  have p: "fst (run_turn (spec_env passing_runner) (run_turn_args_of ?rq) empty_world) = Inr ?res"
    by (simp add: spec_env_def run_turn_spec_def passing_runner_def Let_def split: option.split)
  have e: "sessions (w_store empty_world) = []" "turns (w_store empty_world) = []"
    by (simp_all add: empty_world_def)
  have "create_turn (spec_env failing_runner) ?rq empty_world =
          (Inl (generation_failed (RaisedException ''model unavailable'')), empty_world)"
    using create_turn_all_or_nothing [of failing_runner ?rq empty_world
        "RaisedException ''model unavailable''"] f by blast
  then have 1: "create_turn (spec_env failing_runner) ?rq empty_world =
     (Inl (HTTPException 500 ''Turn generation failed: model unavailable''), empty_world)"
    by (simp add: generation_failed_def)
  have s: "(\<exists>t. turns ?after = turns (w_store empty_world) @ [t])
         \<and> (sessions ?after = sessions (w_store empty_world)
            \<or> (\<exists>s. sessions ?after = sessions (w_store empty_world) @ [s]))"
    using create_turn_all_or_nothing [of passing_runner ?rq empty_world _ ?res] p by blast
  from s have 2: "\<exists>t. turns ?after = [t]"
    by (simp add: e)
  from s have "sessions ?after = [] \<or> (\<exists>s. sessions ?after = [s])"
    by (simp add: e)
  then have 3: "length (sessions ?after) \<le> 1"
    by auto
  from 1 2 3 show ?thesis by blast
qed

subsection \<open>Artifacts: no sanitization\<close>

text \<open>
  C9. The path \<open>get_artifact\<close> serves is the plain concatenation
  \<open>artifacts/{session_id}/{turn_id}/{filename}\<close>: no segment is inspected or rewritten,
  and whatever the handler returns is a response for that very path. So segments can
  lead out of the artifact root: for the segments \<open>..\<close>, \<open>..\<close> and \<open>secret.png\<close> the
  path resolves to \<open>../secret.png\<close>, above the working directory, and where that file
  exists the handler serves it.
\<close>

theorem artifact_path_unsanitized:
  "artifact_path sid tid filename = ''artifacts/'' @ sid @ ''/'' @ tid @ ''/'' @ filename
   \<and> (get_artifact env w sid tid filename = Inl (HTTPException 404 ''Artifact not found'')
      \<or> get_artifact env w sid tid filename =
          Inr \<lparr> path = ''artifacts/'' @ sid @ ''/'' @ tid @ ''/'' @ filename,
                 media_type = ''image/png'' \<rparr>)
   \<and> normpath (artifact_path ''..'' ''..'' ''secret.png'') = [''..'', ''secret.png'']
   \<and> \<not> under_artifact_root (artifact_path ''..'' ''..'' ''secret.png'')
   \<and> get_artifact (spec_env passing_runner)
        (empty_world\<lparr>w_files := [''artifacts/../../secret.png'']\<rparr>) ''..'' ''..'' ''secret.png''
      = Inr \<lparr> path = ''artifacts/../../secret.png'', media_type = ''image/png'' \<rparr>"
proof (intro conjI)
  show "artifact_path sid tid filename = ''artifacts/'' @ sid @ ''/'' @ tid @ ''/'' @ filename"
    by (simp add: artifact_path_def)
  show "get_artifact env w sid tid filename = Inl (HTTPException 404 ''Artifact not found'')
      \<or> get_artifact env w sid tid filename =
          Inr \<lparr> path = ''artifacts/'' @ sid @ ''/'' @ tid @ ''/'' @ filename,
                 media_type = ''image/png'' \<rparr>"
    by (simp add: get_artifact_def artifact_path_def Let_def)
  show n: "normpath (artifact_path ''..'' ''..'' ''secret.png'') = [''..'', ''secret.png'']"
    by (simp add: artifact_path_def normpath_def)
  show "\<not> under_artifact_root (artifact_path ''..'' ''..'' ''secret.png'')"
    by (simp add: under_artifact_root_def n)
  show "get_artifact (spec_env passing_runner)
        (empty_world\<lparr>w_files := [''artifacts/../../secret.png'']\<rparr>) ''..'' ''..'' ''secret.png''
      = Inr \<lparr> path = ''artifacts/../../secret.png'', media_type = ''image/png'' \<rparr>"
    by (simp add: get_artifact_def artifact_path_def Let_def spec_env_def os_path_exists_def
        os_stat_world_def)
qed

subsection \<open>Health: the constant fields\<close>

text \<open>
  C10. Every execution of \<open>health_check\<close> returns a response whose \<open>status\<close> is
  \<open>"healthy"\<close> and whose \<open>version\<close> is \<open>"1.0.0"\<close>, whatever the collaborators do and
  whether or not the database probe raises; only the \<open>database\<close> field depends on them.
\<close>

theorem health_check_status_version:
  "\<exists>db g'. health_check env w g =
      (Inr \<lparr> status = ''healthy'', version = ''1.0.0'', database = db \<rparr>, g')"
  by (simp add: health_check_def split: prod.split)

end
